theory Spec2Isabelle
  imports Complex_Main
begin

section \<open>JavaScript numbers\<close>

text \<open>
  The analysis in \<^verbatim>\<open>Python/BeamAnalyzer.jsx\<close> computes with JavaScript numbers. Finite
  numbers are idealised as reals (no rounding, no overflow, no signed zero); the three
  non-finite values are kept, because the source divides by a span that can be zero and
  HOL's own \<open>x / 0 = 0\<close> would hide what the division returns.
\<close>

datatype jsnum = Fin real | PInf | NInf | NaN

fun is_fin :: "jsnum \<Rightarrow> bool" where
  "is_fin (Fin a) = True"
| "is_fin PInf = False"
| "is_fin NInf = False"
| "is_fin NaN = False"

fun js_neg :: "jsnum \<Rightarrow> jsnum" where
  "js_neg (Fin a) = Fin (- a)"
| "js_neg PInf = NInf"
| "js_neg NInf = PInf"
| "js_neg NaN = NaN"

fun js_add :: "jsnum \<Rightarrow> jsnum \<Rightarrow> jsnum" where
  "js_add (Fin a) (Fin b) = Fin (a + b)"
| "js_add NaN y = NaN"
| "js_add x NaN = NaN"
| "js_add PInf NInf = NaN"
| "js_add NInf PInf = NaN"
| "js_add PInf y = PInf"
| "js_add x PInf = PInf"
| "js_add NInf y = NInf"
| "js_add x NInf = NInf"

definition js_sub :: "jsnum \<Rightarrow> jsnum \<Rightarrow> jsnum" where
  "js_sub x y = js_add x (js_neg y)"

text \<open>The sign of a number as \<open>-1\<close>, \<open>0\<close> or \<open>1\<close>; only read for operands that are not NaN.\<close>

fun js_sign :: "jsnum \<Rightarrow> int" where
  "js_sign (Fin a) = (if a > 0 then 1 else if a < 0 then - 1 else 0)"
| "js_sign PInf = 1"
| "js_sign NInf = - 1"
| "js_sign NaN = 0"

definition signed_inf :: "int \<Rightarrow> jsnum" where
  "signed_inf s = (if s > 0 then PInf else if s < 0 then NInf else NaN)"

fun js_mul :: "jsnum \<Rightarrow> jsnum \<Rightarrow> jsnum" where
  "js_mul (Fin a) (Fin b) = Fin (a * b)"
| "js_mul NaN y = NaN"
| "js_mul x NaN = NaN"
| "js_mul x y = signed_inf (js_sign x * js_sign y)"

text \<open>
  Division: a finite numerator over a zero divisor gives an infinity of the numerator's
  sign, and \<open>0 / 0\<close> gives NaN (the divisor is taken as \<open>+0\<close>).
\<close>

fun js_div :: "jsnum \<Rightarrow> jsnum \<Rightarrow> jsnum" where
  "js_div (Fin a) (Fin b) = (if b \<noteq> 0 then Fin (a / b) else signed_inf (js_sign (Fin a)))"
| "js_div NaN y = NaN"
| "js_div x NaN = NaN"
| "js_div (Fin a) y = Fin 0"
| "js_div x (Fin b) = signed_inf (js_sign x * (if b < 0 then - 1 else 1))"
| "js_div x y = NaN"

text \<open>The comparison \<^verbatim>\<open>x >= y\<close>: false whenever an operand is NaN.\<close>

fun js_ge :: "jsnum \<Rightarrow> jsnum \<Rightarrow> bool" where
  "js_ge (Fin a) (Fin b) = (a \<ge> b)"
| "js_ge NaN y = False"
| "js_ge x NaN = False"
| "js_ge PInf y = True"
| "js_ge x NInf = True"
| "js_ge x y = False"

fun js_abs :: "jsnum \<Rightarrow> jsnum" where
  "js_abs (Fin a) = Fin \<bar>a\<bar>"
| "js_abs PInf = PInf"
| "js_abs NInf = PInf"
| "js_abs NaN = NaN"

fun js_sin :: "jsnum \<Rightarrow> jsnum" where
  "js_sin (Fin a) = Fin (sin a)"
| "js_sin x = NaN"

section \<open>Beam data\<close>

text \<open>
  A support is \<^verbatim>\<open>{ id, position, type }\<close>; a load is an object tagged by its
  \<^verbatim>\<open>type\<close> field: \<^verbatim>\<open>'concentrated'\<close> with \<^verbatim>\<open>position\<close> and \<^verbatim>\<open>magnitude\<close>, or
  \<^verbatim>\<open>'distributed'\<close> with \<^verbatim>\<open>startPos\<close>, \<^verbatim>\<open>endPos\<close>, \<^verbatim>\<open>startIntensity\<close>,
  \<^verbatim>\<open>endIntensity\<close> (as \<^verbatim>\<open>addDistributedLoad\<close> of \<^verbatim>\<open>Web/beam_analysis_engine.js\<close>
  builds it). The \<^verbatim>\<open>id\<close> and \<^verbatim>\<open>mesh\<close> fields are never read by the analysis and are
  left out.
\<close>

record support =
  position :: jsnum
  stype :: string

datatype load =
    Concentrated jsnum jsnum
  | Distributed jsnum jsnum jsnum jsnum

section \<open>Reactions (BeamAnalyzer.jsx, analyzeBeam, lines 261-276)\<close>

text \<open>
  One pass of \<^verbatim>\<open>loads.forEach\<close>: only a load whose type is \<^verbatim>\<open>'concentrated'\<close> changes
  \<^verbatim>\<open>totalLoad\<close> and \<^verbatim>\<open>momentAboutSupport1\<close>.
\<close>

fun accumulate :: "jsnum \<Rightarrow> jsnum \<times> jsnum \<Rightarrow> load \<Rightarrow> jsnum \<times> jsnum" where
  "accumulate p1 (totalLoad, momentAboutSupport1) (Concentrated pos mag) =
     (js_add totalLoad mag, js_add momentAboutSupport1 (js_mul mag (js_sub pos p1)))"
| "accumulate p1 acc (Distributed a b w1 w2) = acc"

definition solve_reactions :: "support \<Rightarrow> support \<Rightarrow> load list \<Rightarrow> jsnum \<times> jsnum" where
  "solve_reactions support1 support2 loads =
     (let L = js_sub (position support2) (position support1);
          tot = foldl (accumulate (position support1)) (Fin 0, Fin 0) loads;
          R2 = js_div (snd tot) L;
          R1 = js_sub (fst tot) R2
      in (R1, R2))"

section \<open>Strings and number formatting\<close>

text \<open>
  The rows pushed onto \<^verbatim>\<open>data\<close> hold strings (the results of \<^verbatim>\<open>toFixed\<close>), and the
  next iteration reads them back, so the model distinguishes numbers from strings.
  \<^verbatim>\<open>Number::toString\<close> on finite numbers, \<^verbatim>\<open>StringToNumber\<close> and \<^verbatim>\<open>parseFloat\<close> are
  parameters of the model: their results on arbitrary reals and strings are not fixed here,
  and every result below holds for each choice of them.
\<close>

record js_env =
  numToString :: "real \<Rightarrow> string"
  stringToNumber :: "string \<Rightarrow> jsnum"
  parseFloat :: "string \<Rightarrow> jsnum"

datatype jsval = Num jsnum | Str string

datatype error = TypeError

fun num_to_string :: "js_env \<Rightarrow> jsnum \<Rightarrow> string" where
  "num_to_string env (Fin r) = numToString env r"
| "num_to_string env PInf = ''Infinity''"
| "num_to_string env NInf = ''-Infinity''"
| "num_to_string env NaN = ''NaN''"

fun to_number :: "js_env \<Rightarrow> jsval \<Rightarrow> jsnum" where
  "to_number env (Num a) = a"
| "to_number env (Str s) = stringToNumber env s"

text \<open>The operator \<^verbatim>\<open>+\<close>: concatenation as soon as one operand is a string.\<close>

fun js_plus :: "js_env \<Rightarrow> jsval \<Rightarrow> jsval \<Rightarrow> jsval" where
  "js_plus env (Num a) (Num b) = Num (js_add a b)"
| "js_plus env (Str s) (Num b) = Str (s @ num_to_string env b)"
| "js_plus env (Num a) (Str t) = Str (num_to_string env a @ t)"
| "js_plus env (Str s) (Str t) = Str (s @ t)"

definition digit_char :: "nat \<Rightarrow> char" where
  "digit_char d = ''0123456789'' ! d"

fun digits :: "nat \<Rightarrow> string" where
  "digits n = (if n < 10 then [digit_char n] else digits (n div 10) @ [digit_char (n mod 10)])"

declare digits.simps [simp del]

text \<open>
  \<^verbatim>\<open>Number.prototype.toFixed(f)\<close>: the sign, then the integer \<open>n\<close> nearest to
  \<open>\<bar>r\<bar> * 10 ^ f\<close> (the larger one on a tie), padded with zeros to \<open>f + 1\<close> digits, with
  the point before the last \<open>f\<close> digits.
\<close>

definition toFixed :: "js_env \<Rightarrow> nat \<Rightarrow> jsnum \<Rightarrow> string" where
  "toFixed env f v =
     (case v of
        Fin r \<Rightarrow>
          (let s = (if r < 0 then ''-'' else []); a = \<bar>r\<bar>
           in if a \<ge> 10 ^ 21 then s @ numToString env a
              else
                (let n = nat \<lfloor>a * 10 ^ f + 1 / 2\<rfloor>;
                     m = digits n;
                     z = replicate (f + 1 - length m) (CHR ''0'') @ m;
                     k = length z
                 in if f \<noteq> 0 then s @ take (k - f) z @ ''.'' @ drop (k - f) z else s @ m))
      | PInf \<Rightarrow> ''Infinity''
      | NInf \<Rightarrow> ''-Infinity''
      | NaN \<Rightarrow> ''NaN'')"

section \<open>The sampling loop (BeamAnalyzer.jsx, analyzeBeam, lines 284-318)\<close>

record row =
  row_x :: string
  row_shear :: string
  row_moment :: string
  row_deflection :: string

text \<open>Lines 295-299: a concentrated load at or before \<open>x\<close> is subtracted; other loads are skipped.\<close>

fun subtract_load :: "jsnum \<Rightarrow> jsnum \<Rightarrow> load \<Rightarrow> jsnum" where
  "subtract_load x shear (Concentrated pos mag) = (if js_ge x pos then js_sub shear mag else shear)"
| "subtract_load x shear (Distributed a b w1 w2) = shear"

text \<open>Lines 286-304: the shear at \<open>x\<close>, from the two reactions and the loads.\<close>

definition shear_at :: "jsnum \<Rightarrow> jsnum \<Rightarrow> jsnum \<Rightarrow> jsnum \<Rightarrow> load list \<Rightarrow> jsnum \<Rightarrow> jsnum" where
  "shear_at p1 p2 R1 R2 loads x =
     (let shear1 = (if js_ge x p1 then js_add (Fin 0) R1 else Fin 0);
          shear2 = foldl (subtract_load x) shear1 loads
      in if js_ge x p2 then js_add shear2 R2 else shear2)"

text \<open>
  \<^verbatim>\<open>data[j]?.field || 0\<close>: the stored string when the row exists and the string is not
  empty, the number 0 otherwise.
\<close>

definition field_or_zero :: "(row \<Rightarrow> string) \<Rightarrow> row list \<Rightarrow> nat \<Rightarrow> jsval" where
  "field_or_zero fld data j =
     (if j < length data \<and> fld (data ! j) \<noteq> [] then Str (fld (data ! j)) else Num (Fin 0))"

text \<open>Lines 287 and 306-310: the value of \<^verbatim>\<open>moment\<close> after the \<^verbatim>\<open>if (i > 0)\<close> block.\<close>

definition moment_at :: "js_env \<Rightarrow> jsnum \<Rightarrow> nat \<Rightarrow> row list \<Rightarrow> jsnum \<Rightarrow> jsval" where
  "moment_at env dx i data shear =
     (if i > 0 then
        (let prevShear = field_or_zero row_shear data (i - 1)
         in js_plus env (field_or_zero row_moment data (i - 1))
              (Num (js_div (js_mul (to_number env (js_plus env prevShear (Num shear))) dx) (Fin 2))))
      else Num (Fin 0))"

text \<open>Line 316: the number whose \<^verbatim>\<open>toFixed(4)\<close> is stored as \<^verbatim>\<open>deflection\<close>.\<close>

definition deflection_at :: "jsnum \<Rightarrow> jsnum \<Rightarrow> jsnum \<Rightarrow> jsnum" where
  "deflection_at beamLength x m =
     js_div (js_mul (js_sin (js_div (js_mul (Fin pi) x) beamLength)) (js_abs m)) (Fin 1000)"

text \<open>
  One iteration of the \<^verbatim>\<open>for\<close> loop. \<^verbatim>\<open>moment.toFixed(2)\<close> raises a TypeError when
  \<^verbatim>\<open>moment\<close> is a string: strings have no \<^verbatim>\<open>toFixed\<close>.
\<close>

definition step ::
  "js_env \<Rightarrow> jsnum \<Rightarrow> jsnum \<Rightarrow> jsnum \<Rightarrow> jsnum \<Rightarrow> jsnum \<Rightarrow> load list \<Rightarrow> jsnum \<Rightarrow> nat \<Rightarrow> row list
     \<Rightarrow> error + row list" where
  "step env beamLength p1 p2 R1 R2 loads dx i data =
     (let x = js_mul (Fin (real i)) dx;
          shear = shear_at p1 p2 R1 R2 loads x
      in case moment_at env dx i data shear of
           Str s \<Rightarrow> Inl TypeError
         | Num m \<Rightarrow>
             Inr (data @ [\<lparr>row_x = toFixed env 2 x, row_shear = toFixed env 2 shear,
                           row_moment = toFixed env 2 m,
                           row_deflection = toFixed env 4 (deflection_at beamLength x m)\<rparr>]))"

fun run_loop :: "(nat \<Rightarrow> row list \<Rightarrow> error + row list) \<Rightarrow> nat list \<Rightarrow> row list \<Rightarrow> error + row list" where
  "run_loop body [] data = Inr data"
| "run_loop body (i # js) data =
     (case body i data of Inl e \<Rightarrow> Inl e | Inr data' \<Rightarrow> run_loop body js data')"

section \<open>analyzeBeam (BeamAnalyzer.jsx, lines 254-325)\<close>

text \<open>
  The component state that \<^verbatim>\<open>analyzeBeam\<close> writes, passed explicitly. The object
  \<^verbatim>\<open>{[support1.position]: R1, [support2.position]: R2}\<close> is a map keyed by position;
  the second entry overwrites the first when the keys coincide.
\<close>

record ui_state =
  reactions :: "jsnum \<rightharpoonup> jsnum"
  analysisData :: "row list"
  maxDeflection :: jsnum

definition numPoints :: nat where
  "numPoints = 100"

definition js_max2 :: "jsnum \<Rightarrow> jsnum \<Rightarrow> jsnum" where
  "js_max2 a b = (if a = NaN \<or> b = NaN then NaN else if js_ge a b then a else b)"

text \<open>Lines 321-324, reached only when the loop has not thrown.\<close>

definition finish :: "js_env \<Rightarrow> ui_state \<Rightarrow> row list \<Rightarrow> ui_state \<times> (error + row list)" where
  "finish env st data =
     (st\<lparr>analysisData := data,
         maxDeflection := foldl js_max2 NInf (map (\<lambda>d. js_abs (parseFloat env (row_deflection d))) data)\<rparr>,
      Inr data)"

definition analyzeBeam ::
  "js_env \<Rightarrow> jsnum \<Rightarrow> support list \<Rightarrow> load list \<Rightarrow> ui_state \<Rightarrow> ui_state \<times> (error + row list)" where
  "analyzeBeam env beamLength supports loads st =
     (let dx = js_div beamLength (Fin (real (numPoints - 1)))
      in case supports of
           support1 # support2 # rest \<Rightarrow>
             (let R = solve_reactions support1 support2 loads;
                  st1 = st\<lparr>reactions := [position support1 \<mapsto> fst R, position support2 \<mapsto> snd R]\<rparr>
              in case run_loop (step env beamLength (position support1) (position support2)
                                  (fst R) (snd R) loads dx) [0..<numPoints] [] of
                   Inl e \<Rightarrow> (st1, Inl e)
                 | Inr data \<Rightarrow> finish env st1 data)
         | _ \<Rightarrow> finish env st [])"

section \<open>Validation in the web front end (Web/beam_analysis_engine.js)\<close>

text \<open>
  The page keeps \<^verbatim>\<open>beamLength\<close>, \<^verbatim>\<open>supports\<close> and \<^verbatim>\<open>loads\<close> in globals; the functions
  below take and return them as a record. An \<^verbatim>\<open>alert\<close> followed by \<^verbatim>\<open>return\<close> is the
  \<open>Inl\<close> branch, carrying the message. The arguments are the values that
  \<^verbatim>\<open>parseFloat\<close> read from the form (NaN for an unreadable field).
\<close>

record web_state =
  w_beamLength :: jsnum
  w_supports :: "support list"
  w_loads :: "load list"

datatype load_form =
    ConcentratedForm jsnum jsnum
  | DistributedForm jsnum jsnum jsnum
  | VaryingForm jsnum jsnum jsnum jsnum

record payload =
  p_beamLength :: jsnum
  p_supports :: "support list"
  p_loads :: "load list"

definition js_lt :: "jsnum \<Rightarrow> jsnum \<Rightarrow> bool" where
  "js_lt x y = (x \<noteq> NaN \<and> y \<noteq> NaN \<and> \<not> js_ge x y)"

definition js_gt :: "jsnum \<Rightarrow> jsnum \<Rightarrow> bool" where
  "js_gt x y = js_lt y x"

text \<open>Lines 141-194, without the scene objects.\<close>

definition web_addSupport :: "jsnum \<Rightarrow> string \<Rightarrow> web_state \<Rightarrow> string + web_state" where
  "web_addSupport pos ty st =
     (if pos = NaN \<or> js_lt pos (Fin 0) \<or> js_gt pos (w_beamLength st)
      then Inl ''Invalid support position!''
      else Inr (st\<lparr>w_supports :=
                  filter (\<lambda>s. js_gt (js_abs (js_sub (position s) pos)) (Fin (1 / 10))) (w_supports st)
                    @ [\<lparr>position = pos, stype = ty\<rparr>]\<rparr>))"

text \<open>Lines 248-287 with \<^verbatim>\<open>addConcentratedLoad\<close> and \<^verbatim>\<open>addDistributedLoad\<close> (lines 289-369).\<close>

fun web_addLoad :: "load_form \<Rightarrow> web_state \<Rightarrow> string + web_state" where
  "web_addLoad (ConcentratedForm pos mag) st =
     (if pos = NaN \<or> mag = NaN then Inl ''Invalid load parameters!''
      else Inr (st\<lparr>w_loads := w_loads st @ [Concentrated pos mag]\<rparr>))"
| "web_addLoad (DistributedForm a b w) st =
     (if a = NaN \<or> b = NaN \<or> w = NaN \<or> js_ge a b then Inl ''Invalid load parameters!''
      else Inr (st\<lparr>w_loads := w_loads st @ [Distributed a b w w]\<rparr>))"
| "web_addLoad (VaryingForm a b w1 w2) st =
     (if a = NaN \<or> b = NaN \<or> w1 = NaN \<or> w2 = NaN \<or> js_ge a b then Inl ''Invalid load parameters!''
      else Inr (st\<lparr>w_loads := w_loads st @ [Distributed a b w1 w2]\<rparr>))"

text \<open>
  Lines 371-416: the two gates of \<^verbatim>\<open>analyzeBeam\<close>, then the request body that
  \<^verbatim>\<open>performAnalysis\<close> posts to the solver (without the elastic modulus, which comes from
  a selection on the page).
\<close>

definition web_analyzeBeam :: "web_state \<Rightarrow> string + payload" where
  "web_analyzeBeam st =
     (if length (w_supports st) < 2 then Inl ''Please add at least 2 supports!''
      else if w_loads st = [] then Inl ''Please add at least one load!''
      else Inr \<lparr>p_beamLength = w_beamLength st, p_supports = w_supports st, p_loads = w_loads st\<rparr>)"

section \<open>Quantities used to state the properties\<close>

fun the_real :: "jsnum \<Rightarrow> real" where
  "the_real (Fin a) = a"
| "the_real x = 0"

fun is_concentrated :: "load \<Rightarrow> bool" where
  "is_concentrated (Concentrated pos mag) = True"
| "is_concentrated (Distributed a b w1 w2) = False"

text \<open>Every number of a load is finite.\<close>

fun load_fin :: "load \<Rightarrow> bool" where
  "load_fin (Concentrated pos mag) = (is_fin pos \<and> is_fin mag)"
| "load_fin (Distributed a b w1 w2) = (is_fin a \<and> is_fin b \<and> is_fin w1 \<and> is_fin w2)"


text \<open>
  The magnitude of a load as the specification's data model gives it (section 3): a
  concentrated load's own magnitude; for a distributed load the area under its intensity,
  \<open>(w1 + w2) / 2 * (end - start)\<close>. It is the quantity the reactions are compared with.
\<close>

fun load_magnitude :: "load \<Rightarrow> real" where
  "load_magnitude (Concentrated pos mag) = the_real mag"
| "load_magnitude (Distributed a b w1 w2) = (the_real w1 + the_real w2) / 2 * (the_real b - the_real a)"

text \<open>The moment of a concentrated load about the point \<open>p\<close>.\<close>

fun load_moment :: "real \<Rightarrow> load \<Rightarrow> real" where
  "load_moment p (Concentrated pos mag) = the_real mag * (the_real pos - p)"
| "load_moment p (Distributed a b w1 w2) = 0"


section \<open>Auxiliary facts\<close>

lemma is_fin_conv: "is_fin x \<longleftrightarrow> (\<exists>a. x = Fin a)"
  by (cases x) simp_all

lemma digits_zero: "digits 0 = ''0''"
  by (subst digits.simps) (simp add: digit_char_def)

lemma toFixed_zero: "toFixed env 2 (Fin 0) = ''0.00''"
  by (simp add: toFixed_def digits_zero Let_def)

lemma replicate_numeral_Cons: "replicate (numeral k) c = c # replicate (pred_numeral k) c"
  by (simp add: numeral_eq_Suc)

lemma toFixed4_zero: "toFixed env 4 (Fin 0) = ''0.0000''"
  by (simp add: toFixed_def digits_zero replicate_numeral_Cons Let_def)

lemma js_plus_Str_left: "\<exists>t. js_plus env (Str s) v = Str t"
  by (cases v) simp_all

text \<open>
  Once the previous row exists and its \<^verbatim>\<open>moment\<close> string is not empty, the sum on line 309
  is a concatenation, and the iteration raises.
\<close>

lemma moment_at_string:
  assumes "0 < i" and "i - 1 < length data" and "row_moment (data ! (i - 1)) \<noteq> []"
  shows "\<exists>t. moment_at env dx i data shear = Str t"
  using assms js_plus_Str_left by (simp add: moment_at_def field_or_zero_def Let_def)

lemma step_throws:
  assumes "0 < i" and "i - 1 < length data" and "row_moment (data ! (i - 1)) \<noteq> []"
  shows "step env beamLength p1 p2 R1 R2 loads dx i data = Inl TypeError"
proof -
  obtain t where
    "moment_at env dx i data (shear_at p1 p2 R1 R2 loads (js_mul (Fin (real i)) dx)) = Str t"
    using moment_at_string [OF assms] by blast
  then show ?thesis by (simp add: step_def Let_def)
qed

lemma step_first:
  "step env beamLength p1 p2 R1 R2 loads dx 0 [] =
     Inr [\<lparr>row_x = toFixed env 2 (js_mul (Fin 0) dx),
           row_shear = toFixed env 2 (shear_at p1 p2 R1 R2 loads (js_mul (Fin 0) dx)),
           row_moment = ''0.00'',
           row_deflection = toFixed env 4 (deflection_at beamLength (js_mul (Fin 0) dx) (Fin 0))\<rparr>]"
  by (simp add: step_def moment_at_def toFixed_zero Let_def)

lemma upt_numPoints: "[0..<numPoints] = 0 # 1 # [2..<numPoints]"
  by (simp add: numPoints_def upt_conv_Cons)

lemma run_loop_throws:
  "run_loop (step env beamLength p1 p2 R1 R2 loads dx) [0..<numPoints] [] = Inl TypeError"
proof -
  have "step env beamLength p1 p2 R1 R2 loads dx 1
          [\<lparr>row_x = toFixed env 2 (js_mul (Fin 0) dx),
            row_shear = toFixed env 2 (shear_at p1 p2 R1 R2 loads (js_mul (Fin 0) dx)),
            row_moment = ''0.00'',
            row_deflection = toFixed env 4 (deflection_at beamLength (js_mul (Fin 0) dx) (Fin 0))\<rparr>]
        = Inl TypeError"
    by (rule step_throws) simp_all
  then show ?thesis
    by (simp add: upt_numPoints step_first)
qed

text \<open>
  Hence every run with at least two supports stores the reactions, pushes the row of the
  first sample and raises in the second iteration.
\<close>

lemma analyzeBeam_two_supports:
  "analyzeBeam env beamLength (support1 # support2 # rest) loads st =
     (st\<lparr>reactions := [position support1 \<mapsto> fst (solve_reactions support1 support2 loads),
                        position support2 \<mapsto> snd (solve_reactions support1 support2 loads)]\<rparr>,
      Inl TypeError)"
  by (simp add: analyzeBeam_def Let_def run_loop_throws)

text \<open>The two sums of the reaction solver, on loads whose numbers are finite.\<close>

lemma foldl_accumulate_fin:
  "list_all load_fin loads \<Longrightarrow>
   foldl (accumulate (Fin p)) (Fin t, Fin m) loads =
     (Fin (t + sum_list (map load_magnitude (filter is_concentrated loads))),
      Fin (m + sum_list (map (load_moment p) (filter is_concentrated loads))))"
proof (induction loads arbitrary: t m)
  case Nil
  then show ?case by simp
next
  case (Cons l loads)
  show ?case
  proof (cases l)
    case (Concentrated pos mag)
    with Cons.prems obtain x y where "pos = Fin x" "mag = Fin y"
      by (auto simp: is_fin_conv)
    with Concentrated Cons show ?thesis
      by (simp add: js_sub_def algebra_simps)
  next
    case (Distributed a b w1 w2)
    with Cons show ?thesis by simp
  qed
qed

lemma solve_reactions_fin:
  assumes "position support1 = Fin a" and "position support2 = Fin b" and "a \<noteq> b"
    and "list_all load_fin loads"
  shows "solve_reactions support1 support2 loads =
     (Fin (sum_list (map load_magnitude (filter is_concentrated loads))
            - sum_list (map (load_moment a) (filter is_concentrated loads)) / (b - a)),
      Fin (sum_list (map (load_moment a) (filter is_concentrated loads)) / (b - a)))"
  using assms foldl_accumulate_fin [of loads a 0 0]
  by (simp add: solve_reactions_def js_sub_def Let_def)




text \<open>
  What the web front end does reject: a support outside the beam, a distributed load whose
  start is not before its end, and an analysis with fewer than two supports.
\<close>

lemma web_addSupport_rejects:
  "js_lt pos (Fin 0) \<or> js_gt pos (w_beamLength st) \<Longrightarrow>
   web_addSupport pos ty st = Inl ''Invalid support position!''"
  by (simp add: web_addSupport_def)

lemma web_addLoad_rejects:
  "js_ge a b \<Longrightarrow>
   web_addLoad (DistributedForm a b w) st = Inl ''Invalid load parameters!''
   \<and> web_addLoad (VaryingForm a b w1 w2) st = Inl ''Invalid load parameters!''"
  by simp

lemma web_analyzeBeam_rejects:
  "length (w_supports st) < 2 \<Longrightarrow> web_analyzeBeam st = Inl ''Please add at least 2 supports!''"
  by (simp add: web_analyzeBeam_def)

section \<open>The claims\<close>

subsection \<open>Reactions\<close>

text \<open>
  Claim C1. For the beam of length 10 with supports at 2 and 8 and concentrated loads of
  50 at 1, 30 at 6 and 40 at 9, the solver returns \<open>R2 = 350 / 6\<close> and \<open>R1 = 120 - R2\<close>,
  so that \<open>R1 + R2 = 120\<close> and \<open>R2 * 6 = 350\<close>; \<^verbatim>\<open>setReactions\<close> stores \<open>R1\<close> under the
  support at 2 and \<open>R2\<close> under the support at 8.
\<close>

theorem scenario_reactions:
  "solve_reactions \<lparr>position = Fin 2, stype = ''pin''\<rparr> \<lparr>position = Fin 8, stype = ''roller''\<rparr>
     [Concentrated (Fin 1) (Fin 50), Concentrated (Fin 6) (Fin 30), Concentrated (Fin 9) (Fin 40)]
     = (Fin (120 - 350 / 6), Fin (350 / 6))
   \<and> js_add (Fin (120 - 350 / 6)) (Fin (350 / 6)) = Fin 120
   \<and> js_mul (Fin (350 / 6)) (Fin 6) = Fin 350
   \<and> reactions (fst (analyzeBeam env (Fin 10)
         [\<lparr>position = Fin 2, stype = ''pin''\<rparr>, \<lparr>position = Fin 8, stype = ''roller''\<rparr>]
         [Concentrated (Fin 1) (Fin 50), Concentrated (Fin 6) (Fin 30), Concentrated (Fin 9) (Fin 40)] st))
       = [Fin 2 \<mapsto> Fin (120 - 350 / 6), Fin 8 \<mapsto> Fin (350 / 6)]"
proof -
  have r: "solve_reactions \<lparr>position = Fin 2, stype = ''pin''\<rparr> \<lparr>position = Fin 8, stype = ''roller''\<rparr>
     [Concentrated (Fin 1) (Fin 50), Concentrated (Fin 6) (Fin 30), Concentrated (Fin 9) (Fin 40)]
     = (Fin (120 - 350 / 6), Fin (350 / 6))"
    by (simp add: solve_reactions_def js_sub_def Let_def)
  show ?thesis
    by (simp only: analyzeBeam_two_supports r) simp
qed

text \<open>
  Claim C2, as the source has it. For two supports at distinct finite positions and loads
  with finite numbers, the two reactions sum to the total magnitude of the concentrated
  loads. The solver skips every load of another type, so a distributed load adds nothing
  to the sum.
\<close>

theorem reactions_sum_concentrated:
  assumes "position support1 = Fin a" and "position support2 = Fin b" and "a \<noteq> b"
    and "list_all load_fin loads"
  shows "js_add (fst (solve_reactions support1 support2 loads)) (snd (solve_reactions support1 support2 loads))
     = Fin (sum_list (map load_magnitude (filter is_concentrated loads)))"
  by (simp add: solve_reactions_fin [OF assms])

text \<open>The statement at supports 2 and 8 with a load of 50 at 5 and a triangular load: the sum is 50.\<close>

theorem reactions_sum_concentrated_witness:
  "position \<lparr>position = Fin 2, stype = ''pin''\<rparr> = Fin 2
   \<and> position \<lparr>position = Fin 8, stype = ''roller''\<rparr> = Fin 8
   \<and> (2::real) \<noteq> 8
   \<and> list_all load_fin [Concentrated (Fin 5) (Fin 50), Distributed (Fin 0) (Fin 4) (Fin 0) (Fin 20)]
   \<and> js_add
        (fst (solve_reactions \<lparr>position = Fin 2, stype = ''pin''\<rparr> \<lparr>position = Fin 8, stype = ''roller''\<rparr>
               [Concentrated (Fin 5) (Fin 50), Distributed (Fin 0) (Fin 4) (Fin 0) (Fin 20)]))
        (snd (solve_reactions \<lparr>position = Fin 2, stype = ''pin''\<rparr> \<lparr>position = Fin 8, stype = ''roller''\<rparr>
               [Concentrated (Fin 5) (Fin 50), Distributed (Fin 0) (Fin 4) (Fin 0) (Fin 20)]))
      = Fin 50"
  using reactions_sum_concentrated [of "\<lparr>position = Fin 2, stype = ''pin''\<rparr>" 2
      "\<lparr>position = Fin 8, stype = ''roller''\<rparr>" 8
      "[Concentrated (Fin 5) (Fin 50), Distributed (Fin 0) (Fin 4) (Fin 0) (Fin 20)]"]
  by simp

text \<open>
  With supports at 3 and 9 and the single triangular load from 0 to 20 over \<open>[0, 4]\<close>
  (magnitude 40), the reactions sum to 0, not to the magnitude of the load.
\<close>

theorem reactions_sum_all_counterexample:
  "js_add
     (fst (solve_reactions \<lparr>position = Fin 3, stype = ''pin''\<rparr> \<lparr>position = Fin 9, stype = ''roller''\<rparr>
            [Distributed (Fin 0) (Fin 4) (Fin 0) (Fin 20)]))
     (snd (solve_reactions \<lparr>position = Fin 3, stype = ''pin''\<rparr> \<lparr>position = Fin 9, stype = ''roller''\<rparr>
            [Distributed (Fin 0) (Fin 4) (Fin 0) (Fin 20)]))
   \<noteq> Fin (sum_list (map load_magnitude [Distributed (Fin 0) (Fin 4) (Fin 0) (Fin 20)]))"
  by (simp add: solve_reactions_def js_sub_def Let_def)

text \<open>
  Claim C5 asks for an error when the two supports coincide. The source has no such
  check: with both supports at 2 and a load of 50 at 5 the span is 0, the division is
  carried out, \<open>R2\<close> is \<open>Infinity\<close> and \<open>R1\<close> is \<open>-Infinity\<close>, and \<^verbatim>\<open>setReactions\<close> stores
  \<open>Infinity\<close> under the position 2.
\<close>

theorem coincident_supports_divide:
  "solve_reactions \<lparr>position = Fin 2, stype = ''pin''\<rparr> \<lparr>position = Fin 2, stype = ''roller''\<rparr>
     [Concentrated (Fin 5) (Fin 50)] = (NInf, PInf)
   \<and> reactions (fst (analyzeBeam env (Fin 10)
         [\<lparr>position = Fin 2, stype = ''pin''\<rparr>, \<lparr>position = Fin 2, stype = ''roller''\<rparr>]
         [Concentrated (Fin 5) (Fin 50)] st)) = [Fin 2 \<mapsto> PInf]"
proof -
  have r: "solve_reactions \<lparr>position = Fin 2, stype = ''pin''\<rparr> \<lparr>position = Fin 2, stype = ''roller''\<rparr>
     [Concentrated (Fin 5) (Fin 50)] = (NInf, PInf)"
    by (simp add: solve_reactions_def js_sub_def Let_def signed_inf_def)
  show ?thesis
    by (simp only: analyzeBeam_two_supports r) simp
qed

text \<open>
  Claim C10. With more than two supports the result depends on the first two only: two
  runs that differ in the supports from index 2 on return the same state and the same
  outcome, and the stored reactions have entries for the positions of the first two
  supports and for nothing else.
\<close>

theorem extra_supports_ignored:
  "analyzeBeam env beamLength (support1 # support2 # extra) loads st
     = analyzeBeam env beamLength (support1 # support2 # extra') loads st
   \<and> dom (reactions (fst (analyzeBeam env beamLength (support1 # support2 # extra) loads st)))
     = {position support1, position support2}"
  by (auto simp: analyzeBeam_two_supports)

subsection \<open>Shear\<close>




text \<open>
  Claim C6 asks for a zero shear at the last sample of a closed load set. On a beam of
  length 12 with supports at 3 and 9 and a load of 60 at 6 the reactions are 30 and 30
  and both are stored, but the loop raises a TypeError in its second iteration: the run
  returns no rows, the stored analysis data stay as they were, and no shear is ever
  computed for the last sample.
\<close>

theorem closed_beam_no_last_shear:
  "analyzeBeam env (Fin 12)
      [\<lparr>position = Fin 3, stype = ''pin''\<rparr>, \<lparr>position = Fin 9, stype = ''roller''\<rparr>]
      [Concentrated (Fin 6) (Fin 60)] st
     = (st\<lparr>reactions := [Fin 3 \<mapsto> Fin 30, Fin 9 \<mapsto> Fin 30]\<rparr>, Inl TypeError)
   \<and> analysisData (fst (analyzeBeam env (Fin 12)
        [\<lparr>position = Fin 3, stype = ''pin''\<rparr>, \<lparr>position = Fin 9, stype = ''roller''\<rparr>]
        [Concentrated (Fin 6) (Fin 60)] st)) = analysisData st"
proof -
  have r: "solve_reactions \<lparr>position = Fin 3, stype = ''pin''\<rparr> \<lparr>position = Fin 9, stype = ''roller''\<rparr>
     [Concentrated (Fin 6) (Fin 60)] = (Fin 30, Fin 30)"
    by (simp add: solve_reactions_def js_sub_def Let_def)
  show ?thesis
    by (simp only: analyzeBeam_two_supports r) simp
qed

subsection \<open>Moment and deflection\<close>

text \<open>
  Claim C3 describes the moment as the running trapezoidal sum of the shear. The source
  stores each moment as the string that \<^verbatim>\<open>toFixed(2)\<close> returns and reads that string back
  in the next iteration, where \<^verbatim>\<open>+\<close> concatenates. For the component's initial beam
  (length 10, supports at 2 and 8, a load of 50 at 5) the value of \<^verbatim>\<open>moment\<close> in the
  second iteration is a string that starts with \<^verbatim>\<open>0.00\<close>, and the run ends in a TypeError:
  no moment sequence is produced.
\<close>

theorem default_beam_raises:
  "snd (analyzeBeam env (Fin 10)
          [\<lparr>position = Fin 2, stype = ''pin''\<rparr>, \<lparr>position = Fin 8, stype = ''roller''\<rparr>]
          [Concentrated (Fin 5) (Fin 50)] st) = Inl TypeError
   \<and> (\<exists>t. moment_at env (js_div (Fin 10) (Fin (real (numPoints - 1)))) 1
             [\<lparr>row_x = ''0.00'', row_shear = ''0.00'', row_moment = ''0.00'', row_deflection = ''0.0000''\<rparr>]
             (Fin 0) = Str (''0.00'' @ t))"
proof
  show "snd (analyzeBeam env (Fin 10)
          [\<lparr>position = Fin 2, stype = ''pin''\<rparr>, \<lparr>position = Fin 8, stype = ''roller''\<rparr>]
          [Concentrated (Fin 5) (Fin 50)] st) = Inl TypeError"
    by (simp add: analyzeBeam_two_supports)
  show "\<exists>t. moment_at env (js_div (Fin 10) (Fin (real (numPoints - 1)))) 1
             [\<lparr>row_x = ''0.00'', row_shear = ''0.00'', row_moment = ''0.00'', row_deflection = ''0.0000''\<rparr>]
             (Fin 0) = Str (''0.00'' @ t)"
    by (simp add: moment_at_def field_or_zero_def Let_def)
qed

text \<open>
  Claim C7 asks for a zero moment at both ends of the beam. On the beam of claim C1 the
  first iteration stores the moment \<^verbatim>\<open>0.00\<close> for \<open>x = 0\<close>; the loop then raises a TypeError
  in its second iteration, so no moment is ever computed for the last sample.
\<close>

theorem scenario_moment_ends:
  "step env (Fin 10) (Fin 2) (Fin 8) (Fin (120 - 350 / 6)) (Fin (350 / 6))
      [Concentrated (Fin 1) (Fin 50), Concentrated (Fin 6) (Fin 30), Concentrated (Fin 9) (Fin 40)]
      (js_div (Fin 10) (Fin (real (numPoints - 1)))) 0 []
     = Inr [\<lparr>row_x = ''0.00'', row_shear = ''0.00'', row_moment = ''0.00'', row_deflection = ''0.0000''\<rparr>]
   \<and> run_loop (step env (Fin 10) (Fin 2) (Fin 8) (Fin (120 - 350 / 6)) (Fin (350 / 6))
        [Concentrated (Fin 1) (Fin 50), Concentrated (Fin 6) (Fin 30), Concentrated (Fin 9) (Fin 40)]
        (js_div (Fin 10) (Fin (real (numPoints - 1))))) [0..<numPoints] [] = Inl TypeError"
proof
  show "step env (Fin 10) (Fin 2) (Fin 8) (Fin (120 - 350 / 6)) (Fin (350 / 6))
      [Concentrated (Fin 1) (Fin 50), Concentrated (Fin 6) (Fin 30), Concentrated (Fin 9) (Fin 40)]
      (js_div (Fin 10) (Fin (real (numPoints - 1)))) 0 []
     = Inr [\<lparr>row_x = ''0.00'', row_shear = ''0.00'', row_moment = ''0.00'', row_deflection = ''0.0000''\<rparr>]"
    by (simp add: step_first shear_at_def deflection_at_def toFixed_zero toFixed4_zero numPoints_def)
  show "run_loop (step env (Fin 10) (Fin 2) (Fin 8) (Fin (120 - 350 / 6)) (Fin (350 / 6))
        [Concentrated (Fin 1) (Fin 50), Concentrated (Fin 6) (Fin 30), Concentrated (Fin 9) (Fin 40)]
        (js_div (Fin 10) (Fin (real (numPoints - 1))))) [0..<numPoints] [] = Inl TypeError"
    by (rule run_loop_throws)
qed

text \<open>
  Claim C8 describes the deflection at every sample as \<open>sin (pi * x / length)\<close> times the
  magnitude of the moment times a constant. Line 316 holds that expression, but it comes
  after \<^verbatim>\<open>moment.toFixed(2)\<close> in the same object literal. On the component's initial beam
  the first iteration stores the deflection \<^verbatim>\<open>0.0000\<close> for \<open>x = 0\<close>, the second iteration
  raises before line 316 is evaluated, and \<^verbatim>\<open>setMaxDeflection\<close> is never reached: no
  deflection is produced for any sample with \<open>x > 0\<close>.
\<close>

theorem default_beam_deflection:
  "step env (Fin 10) (Fin 2) (Fin 8) (Fin 25) (Fin 25) [Concentrated (Fin 5) (Fin 50)]
      (js_div (Fin 10) (Fin (real (numPoints - 1)))) 0 []
     = Inr [\<lparr>row_x = ''0.00'', row_shear = ''0.00'', row_moment = ''0.00'', row_deflection = ''0.0000''\<rparr>]
   \<and> step env (Fin 10) (Fin 2) (Fin 8) (Fin 25) (Fin 25) [Concentrated (Fin 5) (Fin 50)]
      (js_div (Fin 10) (Fin (real (numPoints - 1)))) 1
      [\<lparr>row_x = ''0.00'', row_shear = ''0.00'', row_moment = ''0.00'', row_deflection = ''0.0000''\<rparr>]
     = Inl TypeError
   \<and> maxDeflection (fst (analyzeBeam env (Fin 10)
        [\<lparr>position = Fin 2, stype = ''pin''\<rparr>, \<lparr>position = Fin 8, stype = ''roller''\<rparr>]
        [Concentrated (Fin 5) (Fin 50)] st)) = maxDeflection st"
proof (intro conjI)
  show "step env (Fin 10) (Fin 2) (Fin 8) (Fin 25) (Fin 25) [Concentrated (Fin 5) (Fin 50)]
      (js_div (Fin 10) (Fin (real (numPoints - 1)))) 0 []
     = Inr [\<lparr>row_x = ''0.00'', row_shear = ''0.00'', row_moment = ''0.00'', row_deflection = ''0.0000''\<rparr>]"
    by (simp add: step_first shear_at_def deflection_at_def toFixed_zero toFixed4_zero numPoints_def)
  show "step env (Fin 10) (Fin 2) (Fin 8) (Fin 25) (Fin 25) [Concentrated (Fin 5) (Fin 50)]
      (js_div (Fin 10) (Fin (real (numPoints - 1)))) 1
      [\<lparr>row_x = ''0.00'', row_shear = ''0.00'', row_moment = ''0.00'', row_deflection = ''0.0000''\<rparr>]
     = Inl TypeError"
    by (rule step_throws) simp_all
  show "maxDeflection (fst (analyzeBeam env (Fin 10)
        [\<lparr>position = Fin 2, stype = ''pin''\<rparr>, \<lparr>position = Fin 8, stype = ''roller''\<rparr>]
        [Concentrated (Fin 5) (Fin 50)] st)) = maxDeflection st"
    by (simp add: analyzeBeam_two_supports)
qed

subsection \<open>Validation in the web front end\<close>

text \<open>
  Claim C9 says that every load position outside the beam is rejected before the solver
  runs. \<^verbatim>\<open>addSupport\<close> checks the position against the beam, \<^verbatim>\<open>addLoad\<close> checks only for
  NaN: on a beam of length 10 with supports at 2 and 8 it accepts a concentrated load at
  position 15, and \<^verbatim>\<open>analyzeBeam\<close> then passes both gates and sends that load to the solver.
\<close>

theorem load_beyond_beam_accepted:
  "web_addLoad (ConcentratedForm (Fin 15) (Fin 50))
      \<lparr>w_beamLength = Fin 10,
       w_supports = [\<lparr>position = Fin 2, stype = ''pin''\<rparr>, \<lparr>position = Fin 8, stype = ''roller''\<rparr>],
       w_loads = []\<rparr>
     = Inr \<lparr>w_beamLength = Fin 10,
            w_supports = [\<lparr>position = Fin 2, stype = ''pin''\<rparr>, \<lparr>position = Fin 8, stype = ''roller''\<rparr>],
            w_loads = [Concentrated (Fin 15) (Fin 50)]\<rparr>
   \<and> web_analyzeBeam
      \<lparr>w_beamLength = Fin 10,
       w_supports = [\<lparr>position = Fin 2, stype = ''pin''\<rparr>, \<lparr>position = Fin 8, stype = ''roller''\<rparr>],
       w_loads = [Concentrated (Fin 15) (Fin 50)]\<rparr>
     = Inr \<lparr>p_beamLength = Fin 10,
            p_supports = [\<lparr>position = Fin 2, stype = ''pin''\<rparr>, \<lparr>position = Fin 8, stype = ''roller''\<rparr>],
            p_loads = [Concentrated (Fin 15) (Fin 50)]\<rparr>"
  by (simp add: web_analyzeBeam_def)

end
